theory Spec2Isabelle
  imports Main "HOL-Library.Word"
begin

section \<open>The rpmsg tty driver (drivers/tty/rpmsg\_tty.c)\<close>

text \<open>
  The driver multiplexes a terminal byte stream and a one-signal flow-control channel
  onto rpmsg messages. Every message starts with a one-byte type tag
  (\<open>RPMSG_DATA\<close> or \<open>RPMSG_CTRL\<close>); a control message continues with a one-byte
  control id and its values.

  The embedding is sequential. A C \<open>int\<close> is a HOL \<open>int\<close>: the lengths and sizes the
  driver computes stay far inside the 32-bit range (a message is at most one rpmsg
  buffer), so no wrap-around is written out. A message buffer together with its
  length is a list of bytes. Sizes of the two header structs,
  \<open>sizeof(struct rpmsg_tty_payload)\<close> and \<open>sizeof(struct rpmsg_tty_ctrl)\<close>, are 1:
  each is one \<open>u8\<close> followed by a zero-length array.
\<close>

subsection \<open>Constants and data\<close>

type_synonym u8 = "8 word"

definition MAX_TTY_RPMSG :: int where "MAX_TTY_RPMSG = 32"

text \<open>\<open>enum rpmsg_tty_type_t\<close> and \<open>enum rpmsg_tty_ctrl_t\<close>, as the bytes on the wire.\<close>

definition RPMSG_DATA :: u8 where "RPMSG_DATA = 0"
definition RPMSG_CTRL :: u8 where "RPMSG_CTRL = 1"
definition NUM_RPMSG_TTY_TYPE :: u8 where "NUM_RPMSG_TTY_TYPE = 2"

definition DATA_TERM_READY :: u8 where "DATA_TERM_READY = 0"
definition NUM_RPMSG_TTY_CTRL_TYPE :: u8 where "NUM_RPMSG_TTY_CTRL_TYPE = 1"

text \<open>The kernel's error numbers used by the driver (include/uapi/asm-generic/errno-base.h).\<close>

definition ENOMEM :: int where "ENOMEM = 12"
definition EINVAL :: int where "EINVAL = 22"
definition ENOSPC :: int where "ENOSPC = 28"

definition sizeof_rpmsg_tty_payload :: int where "sizeof_rpmsg_tty_payload = 1"
definition sizeof_rpmsg_tty_ctrl :: int where "sizeof_rpmsg_tty_ctrl = 1"

text \<open>
  \<open>struct rpmsg_tty_port\<close>. The embedded \<open>struct tty_port\<close> belongs to the tty layer; what
  the driver does to it shows up as calls in the trace below. \<open>rpdev\<close> is the back pointer
  to the rpmsg device, \<open>None\<close> for \<open>NULL\<close>.
\<close>

record rpmsg_tty_port =
  cport_id :: int
  cts :: int
  rpdev :: "nat option"

text \<open>
  The answers of the layers the driver calls into: the rpmsg transport
  (\<open>rpmsg_get_buf_payload_size\<close>, \<open>rpmsg_trysend\<close>), the allocator (\<open>kzalloc\<close> of a
  non-zero size succeeds or returns \<open>NULL\<close>), the tty flip buffer
  (\<open>tty_insert_flip_string_fixed_flag\<close> returns the number of bytes it took) and the
  device layer (\<open>tty_port_register_device\<close> returns a device, \<open>Inr\<close>, or an
  \<open>ERR_PTR\<close>, \<open>Inl\<close> of the negative error number it holds: \<open>IS_ERR\<close> tells the
  two apart and \<open>PTR_ERR\<close> reads the number).
\<close>

record env =
  rpmsg_get_buf_payload_size :: int
  rpmsg_trysend :: "u8 list \<Rightarrow> int"
  kzalloc_ok :: bool
  tty_insert_flip_string_fixed_flag :: "u8 list \<Rightarrow> int"
  tty_port_register_device :: "int \<Rightarrow> int + nat"

text \<open>
  What a driver function does to the outside, in program order: the calls into the
  other layers and the log lines. A log line carries the values the source prints
  when they are read from the message within its length.
\<close>

datatype event =
    Dev_dbg_msg_len int
  | Tty_insert_flip_string "u8 list"
  | Dev_dbg_trunc_buffer int
  | Tty_flip_buffer_push
  | Dev_dbg_ctrl_received
  | Print_hex_dump "u8 list"
  | Dev_err_ctrl_invalid
  | Tty_port_tty_wakeup
  | Dev_err_unknown_control
  | Dev_err_invalid_message
  | Rpmsg_trysend "u8 list"
  | Dev_dbg_cannot_send_control int
  | Dev_dbg_send_msg int
  | Dev_dbg_send_failed int
  | Dev_err_alloc_port
  | Tty_port_init
  | Dev_err_register_port
  | Dev_set_drvdata
  | Dev_dbg_new_channel int
  | Tty_port_destroy

text \<open>A kernel fault: the source dereferences a pointer that is not valid.\<close>

datatype fault = Null_rpdev | Zero_size_buffer

subsection \<open>Receive side\<close>

text \<open>
  \<open>rpmsg_tty_data_handler\<close>: \<open>data\<close> with its \<open>len\<close> is the list; the port record is
  not changed.
\<close>

definition rpmsg_tty_data_handler ::
  "env \<Rightarrow> rpmsg_tty_port \<Rightarrow> u8 list \<Rightarrow> rpmsg_tty_port \<times> event list" where
  "rpmsg_tty_data_handler e cport data =
     (let len = int (length data) in
      if len = 0 then (cport, [Dev_dbg_msg_len len])
      else
        let copied = tty_insert_flip_string_fixed_flag e data in
        (cport,
         [Dev_dbg_msg_len len, Tty_insert_flip_string data] @
         (if copied \<noteq> len then [Dev_dbg_trunc_buffer copied] else []) @
         [Tty_flip_buffer_push]))"

text \<open>
  \<open>rpmsg_tty_ctrl_handler\<close>: \<open>ctrl->ctrl\<close> is the first byte of \<open>data\<close>,
  \<open>ctrl->values[0]\<close> the second; both are read only after the length check.
\<close>

definition rpmsg_tty_ctrl_handler ::
  "env \<Rightarrow> rpmsg_tty_port \<Rightarrow> u8 list \<Rightarrow> rpmsg_tty_port \<times> event list" where
  "rpmsg_tty_ctrl_handler e cport data =
     (let len = int (length data) in
      if len \<le> sizeof_rpmsg_tty_ctrl then
        (cport, [Dev_dbg_ctrl_received, Print_hex_dump data, Dev_err_ctrl_invalid])
      else if data ! 0 = DATA_TERM_READY then
        (if data ! 1 = 0 then
           (cport\<lparr>cts := 0\<rparr>, [Dev_dbg_ctrl_received, Print_hex_dump data])
         else
           (cport\<lparr>cts := 1\<rparr>,
            [Dev_dbg_ctrl_received, Print_hex_dump data, Tty_port_tty_wakeup]))
      else
        (cport, [Dev_dbg_ctrl_received, Print_hex_dump data, Dev_err_unknown_control]))"

text \<open>The handler table \<open>rpmsg_tty_handler[]\<close>, indexed by the type tag.\<close>

definition rpmsg_tty_handler ::
  "(env \<Rightarrow> rpmsg_tty_port \<Rightarrow> u8 list \<Rightarrow> rpmsg_tty_port \<times> event list) list" where
  "rpmsg_tty_handler = [rpmsg_tty_data_handler, rpmsg_tty_ctrl_handler]"

text \<open>
  \<open>rpmsg_tty_cb\<close>, the receive callback: the return value, the port afterwards and the
  trace. The handler gets \<open>&rbuf->data\<close>, the message without its first byte, and
  \<open>len - sizeof(rbuf->cmd)\<close>.
\<close>

definition rpmsg_tty_cb ::
  "env \<Rightarrow> rpmsg_tty_port \<Rightarrow> u8 list \<Rightarrow> int \<times> rpmsg_tty_port \<times> event list" where
  "rpmsg_tty_cb e cport msg =
     (let len = int (length msg) in
      if len \<le> sizeof_rpmsg_tty_payload \<or> msg ! 0 \<ge> NUM_RPMSG_TTY_TYPE then
        (- EINVAL, cport, [Dev_err_invalid_message])
      else
        let (cport', evs) = (rpmsg_tty_handler ! unat (msg ! 0)) e cport (drop 1 msg)
        in (0, cport', evs))"

subsection \<open>Transmit side\<close>

text \<open>
  \<open>rpmsg_tty_write_control\<close>: \<open>values\<close> with \<open>n_value\<close> is the list. The source
  writes \<open>DATA_TERM_READY\<close> into the message whatever \<open>ctrl\<close> it is given. A failed
  send is logged and turned into 0.
\<close>

definition rpmsg_tty_write_control ::
  "env \<Rightarrow> rpmsg_tty_port \<Rightarrow> u8 \<Rightarrow> u8 list \<Rightarrow> (fault + int) \<times> event list" where
  "rpmsg_tty_write_control e cport ctrl values =
     (if \<not> kzalloc_ok e then (Inr (- ENOMEM), [])
      else
        let msg = [RPMSG_CTRL, DATA_TERM_READY] @ values in
        case rpdev cport of
          None \<Rightarrow> (Inl Null_rpdev, [])
        | Some r \<Rightarrow>
            let ret = rpmsg_trysend e msg in
            if ret < 0 then (Inr 0, [Rpmsg_trysend msg, Dev_dbg_cannot_send_control ret])
            else (Inr ret, [Rpmsg_trysend msg]))"

text \<open>\<open>rpmsg_tty_throttle\<close> and \<open>rpmsg_tty_unthrottle\<close> drop the return value.\<close>

definition rpmsg_tty_throttle :: "env \<Rightarrow> rpmsg_tty_port \<Rightarrow> (fault + unit) \<times> event list" where
  "rpmsg_tty_throttle e cport =
     (let rts = 0;
          (r, evs) = rpmsg_tty_write_control e cport DATA_TERM_READY [rts]
      in (map_sum (\<lambda>f. f) (\<lambda>_. ()) r, evs))"

definition rpmsg_tty_unthrottle :: "env \<Rightarrow> rpmsg_tty_port \<Rightarrow> (fault + unit) \<times> event list" where
  "rpmsg_tty_unthrottle e cport =
     (let rts = 1;
          (r, evs) = rpmsg_tty_write_control e cport DATA_TERM_READY [rts]
      in (map_sum (\<lambda>f. f) (\<lambda>_. ()) r, evs))"

text \<open>
  \<open>rpmsg_tty_write\<close>: \<open>buf\<close> with \<open>len\<close> is the list. \<open>kzalloc\<close> of size 0 returns the
  non-null \<open>ZERO_SIZE_PTR\<close>, which the store of the type tag then faults on; that is the
  case of a transport whose payload size is 0.
\<close>

definition rpmsg_tty_write ::
  "env \<Rightarrow> rpmsg_tty_port \<Rightarrow> u8 list \<Rightarrow> (fault + int) \<times> event list" where
  "rpmsg_tty_write e cport buf =
     (let len = int (length buf);
          cmd_sz = sizeof_rpmsg_tty_payload in
      if cts cport = 0 then (Inr 0, [])
      else
        case rpdev cport of
          None \<Rightarrow> (Inl Null_rpdev, [])
        | Some r \<Rightarrow>
            let msg_max_size = rpmsg_get_buf_payload_size e in
            if msg_max_size < 0 then (Inr msg_max_size, [Dev_dbg_send_msg len])
            else
              let msg_size = min (len + cmd_sz) msg_max_size in
              if msg_size = 0 then (Inl Zero_size_buffer, [Dev_dbg_send_msg len])
              else if \<not> kzalloc_ok e then (Inr (- ENOMEM), [Dev_dbg_send_msg len])
              else
                let tmpbuf = RPMSG_DATA # take (nat (msg_size - cmd_sz)) buf;
                    ret = rpmsg_trysend e tmpbuf
                in
                if ret \<noteq> 0 then
                  (Inr 0, [Dev_dbg_send_msg len, Rpmsg_trysend tmpbuf, Dev_dbg_send_failed ret])
                else
                  (Inr (msg_size - cmd_sz), [Dev_dbg_send_msg len, Rpmsg_trysend tmpbuf]))"

definition rpmsg_tty_write_room :: "env \<Rightarrow> rpmsg_tty_port \<Rightarrow> fault + int" where
  "rpmsg_tty_write_room e cport =
     (if cts cport \<noteq> 0 then
        (case rpdev cport of
           None \<Rightarrow> Inl Null_rpdev
         | Some r \<Rightarrow> Inr (rpmsg_get_buf_payload_size e - sizeof_rpmsg_tty_payload))
      else Inr 0)"

text \<open>
  \<open>rpmsg_tty_dtr_rts\<close>, called by the tty layer when the terminal is opened
  (\<open>raise\<close> 1) or closed (\<open>raise\<close> 0): it stores \<open>raise\<close> in \<open>cts\<close> and tells the
  remote side.
\<close>

definition rpmsg_tty_dtr_rts ::
  "env \<Rightarrow> rpmsg_tty_port \<Rightarrow> int \<Rightarrow> (fault + unit) \<times> rpmsg_tty_port \<times> event list" where
  "rpmsg_tty_dtr_rts e cport raise =
     (let cport' = cport\<lparr>cts := raise\<rparr>;
          (r, evs) = (if raise \<noteq> 0 then rpmsg_tty_unthrottle e cport'
                      else rpmsg_tty_throttle e cport')
      in (r, cport', evs))"

subsection \<open>The table of ports\<close>

text \<open>
  \<open>tty_idr\<close> maps an id to the port stored under it. The C table holds a pointer, so
  a later store to the port is seen through the table; the embedding writes the
  updated record back where the source stores through the pointer.
\<close>

type_synonym tty_idr = "int \<rightharpoonup> rpmsg_tty_port"

text \<open>
  Modelled from the spec: \<open>idr_alloc\<close> is the kernel's id allocator (lib/idr.c), which
  is not among the sources. The specification says of the table that insertion assigns
  the lowest free id and that a table with no free id makes the creation fail.
  \<open>idr_alloc idr ptr start end\<close> stores \<open>ptr\<close> under the lowest free id in
  \<open>start \<le> id < end\<close> and returns the id, or returns \<open>-ENOSPC\<close> when there is none.
\<close>

definition idr_alloc :: "(int \<rightharpoonup> 'a) \<Rightarrow> 'a \<Rightarrow> int \<Rightarrow> int \<Rightarrow> int \<times> (int \<rightharpoonup> 'a)" where
  "idr_alloc idr ptr start endv =
     (case find (\<lambda>i. idr i = None) [start..endv - 1] of
        None \<Rightarrow> (- ENOSPC, idr)
      | Some i \<Rightarrow> (i, idr(i \<mapsto> ptr)))"

text \<open>
  Modelled from the spec: \<open>idr_remove\<close> (lib/idr.c, not among the sources) takes the
  entry of an id out of the table; the specification says that removal frees the id for
  reuse.
\<close>

definition idr_remove :: "(int \<rightharpoonup> 'a) \<Rightarrow> int \<Rightarrow> (int \<rightharpoonup> 'a)" where
  "idr_remove idr i = idr(i := None)"

text \<open>
  \<open>rpmsg_tty_alloc_cport\<close>: \<open>kzalloc\<close> gives a port with every field zero. The result is
  the port, or \<open>Inl\<close> of the error number of the \<open>ERR_PTR\<close>.
\<close>

definition rpmsg_tty_alloc_cport :: "env \<Rightarrow> tty_idr \<Rightarrow> (int + rpmsg_tty_port) \<times> tty_idr" where
  "rpmsg_tty_alloc_cport e idr =
     (if \<not> kzalloc_ok e then (Inl (- ENOMEM), idr)
      else
        let cport = \<lparr>cport_id = 0, cts = 0, rpdev = None\<rparr>;
            (i, idr') = idr_alloc idr cport 0 MAX_TTY_RPMSG
        in
        if i < 0 then (Inl (- ENOSPC), idr')
        else (Inr (cport\<lparr>cport_id := i\<rparr>), idr'(i \<mapsto> cport\<lparr>cport_id := i\<rparr>)))"

definition rpmsg_tty_release_cport :: "rpmsg_tty_port \<Rightarrow> tty_idr \<Rightarrow> tty_idr" where
  "rpmsg_tty_release_cport cport idr = idr_remove idr (cport_id cport)"

text \<open>
  \<open>rpmsg_tty_probe\<close> for the rpmsg device \<open>r\<close>: the return value, the table afterwards,
  the driver data of the device (the port, when the probe succeeded) and the trace.
\<close>

definition rpmsg_tty_probe ::
  "env \<Rightarrow> tty_idr \<Rightarrow> nat \<Rightarrow> int \<times> tty_idr \<times> rpmsg_tty_port option \<times> event list" where
  "rpmsg_tty_probe e idr r =
     (case rpmsg_tty_alloc_cport e idr of
        (Inl err, idr1) \<Rightarrow> (err, idr1, None, [Dev_err_alloc_port])
      | (Inr cport, idr1) \<Rightarrow>
          (case tty_port_register_device e (cport_id cport) of
             Inl err \<Rightarrow>
               (err, rpmsg_tty_release_cport cport idr1, None,
                [Tty_port_init, Dev_err_register_port, Tty_port_destroy])
           | Inr tty_dev \<Rightarrow>
               let cport' = cport\<lparr>rpdev := Some r\<rparr> in
               (0, idr1(cport_id cport \<mapsto> cport'), Some cport',
                [Tty_port_init, Dev_set_drvdata, Dev_dbg_new_channel (cport_id cport)])))"

subsection \<open>A port driven by its entry points\<close>

text \<open>
  The entry points through which the other layers reach a port after its creation: the
  receive callback of \<open>rpmsg_tty_rpmsg_drv\<close>, the operations of \<open>rpmsg_tty_ops\<close> and
  \<open>dtr_rts\<close> of \<open>rpmsg_tty_port_ops\<close>. A run stops at a fault.
\<close>

datatype tty_op =
    Rx "u8 list"
  | Write "u8 list"
  | Write_room
  | Throttle
  | Unthrottle
  | Dtr_rts int

fun step :: "env \<Rightarrow> rpmsg_tty_port \<Rightarrow> tty_op \<Rightarrow> (fault + int) \<times> rpmsg_tty_port \<times> event list" where
  "step e cport (Rx msg) =
     (case rpmsg_tty_cb e cport msg of (ret, cport', evs) \<Rightarrow> (Inr ret, cport', evs))"
| "step e cport (Write buf) =
     (case rpmsg_tty_write e cport buf of (r, evs) \<Rightarrow> (r, cport, evs))"
| "step e cport Write_room = (rpmsg_tty_write_room e cport, cport, [])"
| "step e cport Throttle =
     (case rpmsg_tty_throttle e cport of (r, evs) \<Rightarrow> (map_sum (\<lambda>f. f) (\<lambda>_. 0) r, cport, evs))"
| "step e cport Unthrottle =
     (case rpmsg_tty_unthrottle e cport of (r, evs) \<Rightarrow> (map_sum (\<lambda>f. f) (\<lambda>_. 0) r, cport, evs))"
| "step e cport (Dtr_rts raise) =
     (case rpmsg_tty_dtr_rts e cport raise of
        (r, cport', evs) \<Rightarrow> (map_sum (\<lambda>f. f) (\<lambda>_. 0) r, cport', evs))"

fun run :: "rpmsg_tty_port \<Rightarrow> (env \<times> tty_op) list \<Rightarrow> rpmsg_tty_port" where
  "run cport [] = cport"
| "run cport ((e, x) # rest) =
     (case step e cport x of
        (Inl f, cport', evs) \<Rightarrow> cport'
      | (Inr ret, cport', evs) \<Rightarrow> run cport' rest)"

text \<open>The frames a trace hands to the transport, and the byte strings it hands to the tty.\<close>

fun sent :: "event list \<Rightarrow> u8 list list" where
  "sent [] = []"
| "sent (Rpmsg_trysend f # evs) = f # sent evs"
| "sent (ev # evs) = sent evs"

fun delivered :: "event list \<Rightarrow> u8 list list" where
  "delivered [] = []"
| "delivered (Tty_insert_flip_string d # evs) = d # delivered evs"
| "delivered (ev # evs) = delivered evs"

fun is_dev_err :: "event \<Rightarrow> bool" where
  "is_dev_err Dev_err_ctrl_invalid = True"
| "is_dev_err Dev_err_unknown_control = True"
| "is_dev_err Dev_err_invalid_message = True"
| "is_dev_err Dev_err_alloc_port = True"
| "is_dev_err Dev_err_register_port = True"
| "is_dev_err ev = False"

text \<open>
  A transport with 496-byte payloads that accepts every frame, an allocator and a tty
  buffer with room, and a device layer that registers every port.
\<close>

definition env0 :: env where
  "env0 = \<lparr>rpmsg_get_buf_payload_size = 496,
           rpmsg_trysend = (\<lambda>f. 0),
           kzalloc_ok = True,
           tty_insert_flip_string_fixed_flag = (\<lambda>d. int (length d)),
           tty_port_register_device = (\<lambda>i. Inr 0)\<rparr>"

text \<open>
  A well-formed TerminalReady control message as the documentation lays it out: the
  control tag, the id \<open>DATA_TERM_READY\<close> and at least the one state byte.
\<close>

definition terminal_ready_frame :: "u8 list \<Rightarrow> bool" where
  "terminal_ready_frame msg \<longleftrightarrow>
     3 \<le> length msg \<and> msg ! 0 = RPMSG_CTRL \<and> msg ! 1 = DATA_TERM_READY"

text \<open>
  The entry-point calls that ask for \<open>cts\<close> to be set: a TerminalReady message with a
  non-zero state, and \<open>dtr_rts\<close> with a non-zero \<open>raise\<close>.
\<close>

fun raises_cts :: "tty_op \<Rightarrow> bool" where
  "raises_cts (Rx msg) = (terminal_ready_frame msg \<and> msg ! 2 \<noteq> 0)"
| "raises_cts (Dtr_rts raise) = (raise \<noteq> 0)"
| "raises_cts x = False"

section \<open>Properties\<close>

subsection \<open>The two handlers behind the callback\<close>

lemma tag_cases: "(w :: u8) < NUM_RPMSG_TTY_TYPE \<Longrightarrow> w = RPMSG_DATA \<or> w = RPMSG_CTRL"
  unfolding NUM_RPMSG_TTY_TYPE_def RPMSG_DATA_def RPMSG_CTRL_def by unat_arith

lemma tag_unknown: "(w :: u8) \<notin> {RPMSG_DATA, RPMSG_CTRL} \<Longrightarrow> NUM_RPMSG_TTY_TYPE \<le> w"
  unfolding NUM_RPMSG_TTY_TYPE_def RPMSG_DATA_def RPMSG_CTRL_def by unat_arith

lemma tag_known: "\<not> NUM_RPMSG_TTY_TYPE \<le> RPMSG_DATA" "\<not> NUM_RPMSG_TTY_TYPE \<le> RPMSG_CTRL"
  by (simp_all add: NUM_RPMSG_TTY_TYPE_def RPMSG_DATA_def RPMSG_CTRL_def word_le_nat_alt)

lemma handler_data: "rpmsg_tty_handler ! unat RPMSG_DATA = rpmsg_tty_data_handler"
  by (simp add: rpmsg_tty_handler_def RPMSG_DATA_def)

lemma handler_ctrl: "rpmsg_tty_handler ! unat RPMSG_CTRL = rpmsg_tty_ctrl_handler"
  by (simp add: rpmsg_tty_handler_def RPMSG_CTRL_def)

lemma cb_reject:
  "length msg \<le> 1 \<or> NUM_RPMSG_TTY_TYPE \<le> msg ! 0 \<Longrightarrow>
   rpmsg_tty_cb e cport msg = (- EINVAL, cport, [Dev_err_invalid_message])"
  by (auto simp: rpmsg_tty_cb_def sizeof_rpmsg_tty_payload_def)

lemma cb_data:
  "2 \<le> length msg \<Longrightarrow> msg ! 0 = RPMSG_DATA \<Longrightarrow>
   rpmsg_tty_cb e cport msg =
     (case rpmsg_tty_data_handler e cport (drop 1 msg) of (c, evs) \<Rightarrow> (0, c, evs))"
  by (simp add: rpmsg_tty_cb_def sizeof_rpmsg_tty_payload_def tag_known handler_data)

lemma cb_ctrl:
  "2 \<le> length msg \<Longrightarrow> msg ! 0 = RPMSG_CTRL \<Longrightarrow>
   rpmsg_tty_cb e cport msg =
     (case rpmsg_tty_ctrl_handler e cport (drop 1 msg) of (c, evs) \<Rightarrow> (0, c, evs))"
  by (simp add: rpmsg_tty_cb_def sizeof_rpmsg_tty_payload_def tag_known handler_ctrl)

lemma data_handler_nonempty:
  "data \<noteq> [] \<Longrightarrow>
   rpmsg_tty_data_handler e cport data =
     (cport, [Dev_dbg_msg_len (int (length data)), Tty_insert_flip_string data] @
             (if tty_insert_flip_string_fixed_flag e data \<noteq> int (length data)
              then [Dev_dbg_trunc_buffer (tty_insert_flip_string_fixed_flag e data)] else []) @
             [Tty_flip_buffer_push])"
  by (simp add: rpmsg_tty_data_handler_def Let_def)

lemma ctrl_handler_short:
  "length data \<le> 1 \<Longrightarrow>
   rpmsg_tty_ctrl_handler e cport data =
     (cport, [Dev_dbg_ctrl_received, Print_hex_dump data, Dev_err_ctrl_invalid])"
  by (simp add: rpmsg_tty_ctrl_handler_def sizeof_rpmsg_tty_ctrl_def)

lemma ctrl_handler_ready:
  "2 \<le> length data \<Longrightarrow> data ! 0 = DATA_TERM_READY \<Longrightarrow>
   rpmsg_tty_ctrl_handler e cport data =
     (if data ! 1 = 0
      then (cport\<lparr>cts := 0\<rparr>, [Dev_dbg_ctrl_received, Print_hex_dump data])
      else (cport\<lparr>cts := 1\<rparr>,
            [Dev_dbg_ctrl_received, Print_hex_dump data, Tty_port_tty_wakeup]))"
  by (simp add: rpmsg_tty_ctrl_handler_def sizeof_rpmsg_tty_ctrl_def)

lemma ctrl_handler_unknown:
  "2 \<le> length data \<Longrightarrow> data ! 0 \<noteq> DATA_TERM_READY \<Longrightarrow>
   rpmsg_tty_ctrl_handler e cport data =
     (cport, [Dev_dbg_ctrl_received, Print_hex_dump data, Dev_err_unknown_control])"
  by (simp add: rpmsg_tty_ctrl_handler_def sizeof_rpmsg_tty_ctrl_def)

subsection \<open>Write room\<close>

text \<open>
  Claim C9. \<open>rpmsg_tty_write_room\<close> is gated by \<open>cts\<close> as \<open>rpmsg_tty_write\<close> is: with
  \<open>cts\<close> clear it returns 0 (and the write returns 0 without sending); with \<open>cts\<close> set,
  on a port attached to its rpmsg device, it returns the payload size the transport
  reports minus the one byte of the type tag.
\<close>

theorem write_room_gated:
  "(cts cport = 0 \<longrightarrow>
      rpmsg_tty_write_room e cport = Inr 0 \<and> rpmsg_tty_write e cport buf = (Inr 0, [])) \<and>
   (cts cport \<noteq> 0 \<and> rpdev cport \<noteq> None \<longrightarrow>
      rpmsg_tty_write_room e cport = Inr (rpmsg_get_buf_payload_size e - 1))"
  by (auto simp: rpmsg_tty_write_room_def rpmsg_tty_write_def sizeof_rpmsg_tty_payload_def)

theorem write_room_gated_witness:
  "rpmsg_tty_write_room env0 \<lparr>cport_id = 0, cts = 0, rpdev = Some 0\<rparr> = Inr 0 \<and>
   rpmsg_tty_write env0 \<lparr>cport_id = 0, cts = 0, rpdev = Some 0\<rparr> [65] = (Inr 0, []) \<and>
   rpmsg_tty_write_room env0 \<lparr>cport_id = 0, cts = 1, rpdev = Some 0\<rparr> = Inr 495"
  using write_room_gated [of "\<lparr>cport_id = 0, cts = 0, rpdev = Some 0\<rparr>" env0 "[65]"]
        write_room_gated [of "\<lparr>cport_id = 0, cts = 1, rpdev = Some 0\<rparr>" env0 "[]"]
  by (simp add: env0_def)

subsection \<open>A send the transport rejects\<close>

text \<open>
  Claim C6. When \<open>rpmsg_tty_write\<close> has handed a frame to \<open>rpmsg_trysend\<close> and the
  transport answered with a non-zero value, the write returns 0, not the error. When
  \<open>rpmsg_tty_write_control\<close> has handed a frame to \<open>rpmsg_trysend\<close> and the transport
  answered with a negative error number, the function returns 0 to its caller.
\<close>

theorem send_rejected_returns_zero:
  "(Rpmsg_trysend f \<in> set (snd (rpmsg_tty_write e cport buf)) \<and> rpmsg_trysend e f \<noteq> 0 \<longrightarrow>
      fst (rpmsg_tty_write e cport buf) = Inr 0) \<and>
   (Rpmsg_trysend g \<in> set (snd (rpmsg_tty_write_control e cport ctrl values)) \<and>
    rpmsg_trysend e g < 0 \<longrightarrow>
      fst (rpmsg_tty_write_control e cport ctrl values) = Inr 0)"
  by (auto simp: rpmsg_tty_write_def rpmsg_tty_write_control_def Let_def
           split: if_splits option.splits)

theorem send_rejected_returns_zero_witness:
  "Rpmsg_trysend [0, 65] \<in>
     set (snd (rpmsg_tty_write (env0\<lparr>rpmsg_trysend := (\<lambda>f. - 11)\<rparr>)
                \<lparr>cport_id = 0, cts = 1, rpdev = Some 0\<rparr> [65])) \<and>
   rpmsg_trysend (env0\<lparr>rpmsg_trysend := (\<lambda>f. - 11)\<rparr>) [0, 65] \<noteq> 0 \<and>
   fst (rpmsg_tty_write (env0\<lparr>rpmsg_trysend := (\<lambda>f. - 11)\<rparr>)
          \<lparr>cport_id = 0, cts = 1, rpdev = Some 0\<rparr> [65]) = Inr 0 \<and>
   Rpmsg_trysend [1, 0, 1] \<in>
     set (snd (rpmsg_tty_write_control (env0\<lparr>rpmsg_trysend := (\<lambda>f. - 11)\<rparr>)
                \<lparr>cport_id = 0, cts = 1, rpdev = Some 0\<rparr> DATA_TERM_READY [1])) \<and>
   rpmsg_trysend (env0\<lparr>rpmsg_trysend := (\<lambda>f. - 11)\<rparr>) [1, 0, 1] < 0 \<and>
   fst (rpmsg_tty_write_control (env0\<lparr>rpmsg_trysend := (\<lambda>f. - 11)\<rparr>)
          \<lparr>cport_id = 0, cts = 1, rpdev = Some 0\<rparr> DATA_TERM_READY [1]) = Inr 0"
proof -
  let ?e = "env0\<lparr>rpmsg_trysend := (\<lambda>f. - 11)\<rparr>"
  let ?p = "\<lparr>cport_id = 0, cts = 1, rpdev = Some 0\<rparr>"
  have sent_data: "Rpmsg_trysend [0, 65] \<in> set (snd (rpmsg_tty_write ?e ?p [65]))"
    by (simp add: rpmsg_tty_write_def env0_def sizeof_rpmsg_tty_payload_def RPMSG_DATA_def)
  have sent_ctrl:
    "Rpmsg_trysend [1, 0, 1] \<in> set (snd (rpmsg_tty_write_control ?e ?p DATA_TERM_READY [1]))"
    by (simp add: rpmsg_tty_write_control_def env0_def RPMSG_CTRL_def DATA_TERM_READY_def)
  have rej: "rpmsg_trysend ?e [0, 65] \<noteq> 0" "rpmsg_trysend ?e [1, 0, 1] < 0"
    by simp_all
  from sent_data sent_ctrl rej
       send_rejected_returns_zero [of "[0, 65]" ?e ?p "[65]" "[1, 0, 1]" DATA_TERM_READY "[1]"]
  show ?thesis by blast
qed

subsection \<open>Malformed messages\<close>

text \<open>
  Claim C3. \<open>rpmsg_tty_cb\<close> returns \<open>-EINVAL\<close> for every message of length at most 1 and
  for every message whose first byte is neither \<open>RPMSG_DATA\<close> nor \<open>RPMSG_CTRL\<close>; the
  port is unchanged and the trace holds the error line only, so neither handler ran.
  A control message whose control id is not \<open>DATA_TERM_READY\<close> reaches the control
  handler, which logs an error and leaves the port, and so \<open>cts\<close>, as it was, without
  a wakeup; the callback itself returns 0 for it.
\<close>

theorem cb_rejects_malformed:
  "(length msg \<le> 1 \<or> msg ! 0 \<notin> {RPMSG_DATA, RPMSG_CTRL} \<longrightarrow>
      rpmsg_tty_cb e cport msg = (- EINVAL, cport, [Dev_err_invalid_message])) \<and>
   (2 \<le> length msg \<and> msg ! 0 = RPMSG_CTRL \<and> msg ! 1 \<noteq> DATA_TERM_READY \<longrightarrow>
      (\<exists>evs. rpmsg_tty_cb e cport msg = (0, cport, evs) \<and>
             list_ex is_dev_err evs \<and> Tty_port_tty_wakeup \<notin> set evs))"
proof (intro conjI impI)
  assume "length msg \<le> 1 \<or> msg ! 0 \<notin> {RPMSG_DATA, RPMSG_CTRL}"
  then have "length msg \<le> 1 \<or> NUM_RPMSG_TTY_TYPE \<le> msg ! 0"
    using tag_unknown by blast
  then show "rpmsg_tty_cb e cport msg = (- EINVAL, cport, [Dev_err_invalid_message])"
    by (rule cb_reject)
next
  assume a: "2 \<le> length msg \<and> msg ! 0 = RPMSG_CTRL \<and> msg ! 1 \<noteq> DATA_TERM_READY"
  show "\<exists>evs. rpmsg_tty_cb e cport msg = (0, cport, evs) \<and>
             list_ex is_dev_err evs \<and> Tty_port_tty_wakeup \<notin> set evs"
  proof (cases "length msg = 2")
    case True
    then have "length (drop 1 msg) \<le> 1" by simp
    then show ?thesis using a by (simp add: cb_ctrl ctrl_handler_short)
  next
    case False
    with a have "2 \<le> length (drop 1 msg)" "drop 1 msg ! 0 \<noteq> DATA_TERM_READY"
      by auto
    then show ?thesis using a by (simp add: cb_ctrl ctrl_handler_unknown)
  qed
qed

theorem cb_rejects_malformed_witness:
  "rpmsg_tty_cb env0 \<lparr>cport_id = 0, cts = 1, rpdev = Some 0\<rparr> [2, 65] =
     (- EINVAL, \<lparr>cport_id = 0, cts = 1, rpdev = Some 0\<rparr>, [Dev_err_invalid_message]) \<and>
   (\<exists>evs. rpmsg_tty_cb env0 \<lparr>cport_id = 0, cts = 1, rpdev = Some 0\<rparr> [1, 7, 0] =
            (0, \<lparr>cport_id = 0, cts = 1, rpdev = Some 0\<rparr>, evs) \<and>
          list_ex is_dev_err evs \<and> Tty_port_tty_wakeup \<notin> set evs)"
proof -
  have h1: "[2, 65 :: u8] ! 0 \<notin> {RPMSG_DATA, RPMSG_CTRL}"
    by (simp add: RPMSG_DATA_def RPMSG_CTRL_def)
  have h2: "2 \<le> length [1, 7, 0 :: u8] \<and> [1, 7, 0 :: u8] ! 0 = RPMSG_CTRL \<and>
            [1, 7, 0 :: u8] ! 1 \<noteq> DATA_TERM_READY"
    by (simp add: RPMSG_CTRL_def DATA_TERM_READY_def)
  from h1 h2
       cb_rejects_malformed [of "[2, 65]" env0 "\<lparr>cport_id = 0, cts = 1, rpdev = Some 0\<rparr>"]
       cb_rejects_malformed [of "[1, 7, 0]" env0 "\<lparr>cport_id = 0, cts = 1, rpdev = Some 0\<rparr>"]
  show ?thesis by blast
qed

subsection \<open>What the handlers are given\<close>

text \<open>
  Claim C10. For every message the callback accepts (more than one byte, a type tag
  below \<open>NUM_RPMSG_TTY_TYPE\<close>) the handler chosen by the tag is called with the message
  minus its first byte, which is at least one byte long. So the data handler, reached
  through the callback, never takes its early return for a zero length: its result is
  not the result of that branch, and the payload is handed to the tty buffer and
  pushed.
\<close>

theorem cb_handler_payload_nonempty:
  assumes "1 < length msg" and "msg ! 0 < NUM_RPMSG_TTY_TYPE"
  shows "1 \<le> length (drop 1 msg) \<and>
         rpmsg_tty_cb e cport msg =
           (case (rpmsg_tty_handler ! unat (msg ! 0)) e cport (drop 1 msg) of
              (c, evs) \<Rightarrow> (0, c, evs)) \<and>
         (msg ! 0 = RPMSG_DATA \<longrightarrow>
            rpmsg_tty_data_handler e cport (drop 1 msg) \<noteq>
              (cport, [Dev_dbg_msg_len (int (length (drop 1 msg)))]) \<and>
            delivered (snd (snd (rpmsg_tty_cb e cport msg))) = [drop 1 msg] \<and>
            Tty_flip_buffer_push \<in> set (snd (snd (rpmsg_tty_cb e cport msg))))"
proof -
  from assms(1) have ne: "drop 1 msg \<noteq> []" and len: "1 \<le> length (drop 1 msg)" "2 \<le> length msg"
    by simp_all
  have eq: "rpmsg_tty_cb e cport msg =
           (case (rpmsg_tty_handler ! unat (msg ! 0)) e cport (drop 1 msg) of
              (c, evs) \<Rightarrow> (0, c, evs))"
  proof -
    from assms(2) have "\<not> NUM_RPMSG_TTY_TYPE \<le> msg ! 0" by simp
    with len(2) show ?thesis
      by (simp add: rpmsg_tty_cb_def sizeof_rpmsg_tty_payload_def)
  qed
  have "msg ! 0 = RPMSG_DATA \<Longrightarrow>
          rpmsg_tty_data_handler e cport (drop 1 msg) \<noteq>
              (cport, [Dev_dbg_msg_len (int (length (drop 1 msg)))]) \<and>
          delivered (snd (snd (rpmsg_tty_cb e cport msg))) = [drop 1 msg] \<and>
          Tty_flip_buffer_push \<in> set (snd (snd (rpmsg_tty_cb e cport msg)))"
    using len(2) ne by (simp add: cb_data data_handler_nonempty)
  with len(1) eq show ?thesis by blast
qed

theorem cb_handler_payload_nonempty_witness:
  "1 < length [0, 65 :: u8] \<and> [0, 65 :: u8] ! 0 < NUM_RPMSG_TTY_TYPE \<and>
   1 \<le> length (drop 1 [0, 65 :: u8]) \<and>
   delivered (snd (snd (rpmsg_tty_cb env0 \<lparr>cport_id = 0, cts = 1, rpdev = Some 0\<rparr> [0, 65])))
     = [[65]]"
proof -
  have h: "1 < length [0, 65 :: u8]" "[0, 65 :: u8] ! 0 < NUM_RPMSG_TTY_TYPE"
    by (simp_all add: NUM_RPMSG_TTY_TYPE_def)
  have d: "[0, 65 :: u8] ! 0 = RPMSG_DATA" by (simp add: RPMSG_DATA_def)
  have dr: "drop 1 [0, 65 :: u8] = [65]" by simp
  from cb_handler_payload_nonempty [OF h, of env0 "\<lparr>cport_id = 0, cts = 1, rpdev = Some 0\<rparr>"] d
  have "1 \<le> length (drop 1 [0, 65 :: u8]) \<and>
        delivered (snd (snd (rpmsg_tty_cb env0 \<lparr>cport_id = 0, cts = 1, rpdev = Some 0\<rparr> [0, 65])))
          = [drop 1 [0, 65]]"
    by blast
  with h show ?thesis unfolding dr by blast
qed

subsection \<open>TerminalReady updates\<close>

lemma cb_terminal_ready:
  assumes "terminal_ready_frame msg"
  shows "rpmsg_tty_cb e cport msg =
           (if msg ! 2 = 0
            then (0, cport\<lparr>cts := 0\<rparr>, [Dev_dbg_ctrl_received, Print_hex_dump (drop 1 msg)])
            else (0, cport\<lparr>cts := 1\<rparr>,
                  [Dev_dbg_ctrl_received, Print_hex_dump (drop 1 msg), Tty_port_tty_wakeup]))"
proof -
  from assms have l: "2 \<le> length msg" "2 \<le> length (drop 1 msg)"
    and t: "msg ! 0 = RPMSG_CTRL" and k: "drop 1 msg ! 0 = DATA_TERM_READY"
    and v: "drop 1 msg ! 1 = msg ! 2"
    by (auto simp: terminal_ready_frame_def numeral_2_eq_2)
  show ?thesis
    unfolding cb_ctrl [OF l(1) t] ctrl_handler_ready [OF l(2) k] v by simp
qed

lemma run_rx_terminal_ready:
  "ems \<noteq> [] \<Longrightarrow> \<forall>(e, m) \<in> set ems. terminal_ready_frame m \<Longrightarrow>
   cts (run cport (map (\<lambda>(e, m). (e, Rx m)) ems)) = (if snd (last ems) ! 2 = 0 then 0 else 1)"
proof (induction ems arbitrary: cport)
  case Nil
  then show ?case by simp
next
  case (Cons a ems)
  obtain e m where a: "a = (e, m)" by (cases a)
  with Cons.prems have f: "terminal_ready_frame m" by simp
  show ?case
  proof (cases "ems = []")
    case True
    then show ?thesis using a by (simp add: cb_terminal_ready [OF f])
  next
    case False
    with Cons.prems have "\<forall>(e, m) \<in> set ems. terminal_ready_frame m" by simp
    from Cons.IH [OF False this] show ?thesis
      using a False by (simp add: cb_terminal_ready [OF f])
  qed
qed

text \<open>
  Claim C2. After any non-empty sequence of well-formed TerminalReady messages has been
  received by a port, \<open>cts\<close> is 1 when the state byte of the last message is non-zero
  and 0 when it is zero, whatever the earlier messages said; and receiving a
  TerminalReady message with a non-zero state byte calls \<open>tty_port_tty_wakeup\<close>.
\<close>

theorem ctrl_last_write_wins:
  "(ems \<noteq> [] \<and> (\<forall>(e, m) \<in> set ems. terminal_ready_frame m) \<longrightarrow>
      cts (run cport (map (\<lambda>(e, m). (e, Rx m)) ems)) =
        (if snd (last ems) ! 2 = 0 then 0 else 1)) \<and>
   (terminal_ready_frame msg \<and> msg ! 2 \<noteq> 0 \<longrightarrow>
      Tty_port_tty_wakeup \<in> set (snd (snd (rpmsg_tty_cb e cport msg))))"
  using run_rx_terminal_ready [of ems cport] cb_terminal_ready [of msg e cport]
  by simp

theorem ctrl_last_write_wins_witness:
  "cts (run \<lparr>cport_id = 0, cts = 0, rpdev = Some 0\<rparr>
         (map (\<lambda>(e, m). (e, Rx m)) [(env0, [1, 0, 1]), (env0, [1, 0, 0])])) = 0 \<and>
   cts (run \<lparr>cport_id = 0, cts = 0, rpdev = Some 0\<rparr>
         (map (\<lambda>(e, m). (e, Rx m)) [(env0, [1, 0, 0]), (env0, [1, 0, 5])])) = 1 \<and>
   Tty_port_tty_wakeup \<in>
     set (snd (snd (rpmsg_tty_cb env0 \<lparr>cport_id = 0, cts = 0, rpdev = Some 0\<rparr> [1, 0, 5])))"
proof -
  have f: "terminal_ready_frame [1, 0, 1]" "terminal_ready_frame [1, 0, 0]"
    "terminal_ready_frame [1, 0, 5]"
    by (simp_all add: terminal_ready_frame_def RPMSG_CTRL_def DATA_TERM_READY_def)
  have v: "[1, 0, 5 :: u8] ! 2 \<noteq> 0" "[1, 0, 0 :: u8] ! 2 = 0" by simp_all
  from f v
    ctrl_last_write_wins [of "[(env0, [1, 0, 1]), (env0, [1, 0, 0])]"
      "\<lparr>cport_id = 0, cts = 0, rpdev = Some 0\<rparr>" "[1, 0, 5]" env0]
    ctrl_last_write_wins [of "[(env0, [1, 0, 0]), (env0, [1, 0, 5])]"
      "\<lparr>cport_id = 0, cts = 0, rpdev = Some 0\<rparr>" "[1, 0, 5]" env0]
  show ?thesis by simp
qed

subsection \<open>The table of ports\<close>

lemma find_upto_least:
  assumes "find P [s..t] = Some i"
  shows "s \<le> i \<and> i \<le> t \<and> P i \<and> (\<forall>j. s \<le> j \<and> j < i \<longrightarrow> \<not> P j)"
proof -
  from assms obtain k where k: "k < length [s..t]" "P ([s..t] ! k)" "i = [s..t] ! k"
    and least: "\<forall>j<k. \<not> P ([s..t] ! j)"
    by (auto simp: find_Some_iff)
  from k(1) have kt: "s + int k \<le> t" by simp
  then have i: "i = s + int k" using k(3) by simp
  have "\<not> P j" if "s \<le> j" "j < i" for j
  proof -
    from that i have "nat (j - s) < k" "s + int (nat (j - s)) \<le> t" using kt by simp_all
    with least have "\<not> P ([s..t] ! nat (j - s))" by blast
    moreover have "[s..t] ! nat (j - s) = j"
      using \<open>s + int (nat (j - s)) \<le> t\<close> that(1) by simp
    ultimately show ?thesis by simp
  qed
  with i kt k(2) show ?thesis by simp
qed

lemma find_upto_none: "find P [s..t] = None \<longleftrightarrow> (\<forall>j. s \<le> j \<and> j \<le> t \<longrightarrow> \<not> P j)"
  by (auto simp: find_None_iff)

lemma alloc_cport_Inr:
  assumes "rpmsg_tty_alloc_cport e idr = (Inr p, idr')"
  shows "kzalloc_ok e \<and> 0 \<le> cport_id p \<and> cport_id p < 32 \<and> idr (cport_id p) = None \<and>
         (\<forall>j. 0 \<le> j \<and> j < cport_id p \<longrightarrow> idr j \<noteq> None) \<and>
         idr' = idr(cport_id p \<mapsto> p) \<and> cts p = 0 \<and> rpdev p = None"
proof (cases "find (\<lambda>i. idr i = None) [0..31]")
  case None
  with assms show ?thesis
    by (simp add: rpmsg_tty_alloc_cport_def idr_alloc_def MAX_TTY_RPMSG_def ENOSPC_def
             split: if_splits)
next
  case (Some i)
  from find_upto_least [OF Some] have i: "0 \<le> i" "i \<le> 31" "idr i = None"
    "\<forall>j. 0 \<le> j \<and> j < i \<longrightarrow> idr j \<noteq> None" by auto
  with assms Some have "kzalloc_ok e" "p = \<lparr>cport_id = i, cts = 0, rpdev = None\<rparr>"
    "idr' = idr(i \<mapsto> p)"
    by (auto simp: rpmsg_tty_alloc_cport_def idr_alloc_def MAX_TTY_RPMSG_def split: if_splits)
  with i show ?thesis by simp
qed

lemma alloc_cport_free:
  assumes "kzalloc_ok e" and "0 \<le> j" "j < 32" "idr j = None"
  shows "\<exists>p idr'. rpmsg_tty_alloc_cport e idr = (Inr p, idr')"
proof (cases "find (\<lambda>i. idr i = None) [0..31]")
  case None
  with assms show ?thesis by (auto simp: find_upto_none)
next
  case (Some i)
  from find_upto_least [OF Some] have "0 \<le> i" by simp
  with assms(1) Some show ?thesis
    by (simp add: rpmsg_tty_alloc_cport_def idr_alloc_def MAX_TTY_RPMSG_def)
qed

lemma alloc_cport_full:
  assumes "\<forall>j. 0 \<le> j \<and> j < 32 \<longrightarrow> idr j \<noteq> None"
  shows "rpmsg_tty_alloc_cport e idr =
           (Inl (if kzalloc_ok e then - ENOSPC else - ENOMEM), idr)"
proof -
  from assms have "find (\<lambda>i. idr i = None) [0..31] = None"
    by (simp add: find_upto_none)
  then show ?thesis
    by (simp add: rpmsg_tty_alloc_cport_def idr_alloc_def MAX_TTY_RPMSG_def ENOSPC_def)
qed

text \<open>
  Claim C7. The table hands out the ids 0 to 31. A port that \<open>rpmsg_tty_alloc_cport\<close>
  creates gets the lowest id that was free and is stored under it; the creation succeeds
  whenever memory is available and an id is free; with all 32 ids in use it fails with
  \<open>-ENOSPC\<close> and the table is unchanged. After \<open>rpmsg_tty_release_cport\<close> the port's
  id is free, and the next creation takes it again when every lower id is in use.
\<close>

theorem registry_lowest_free_id:
  "(rpmsg_tty_alloc_cport e idr = (Inr p, idr') \<longrightarrow>
      0 \<le> cport_id p \<and> cport_id p < 32 \<and> idr (cport_id p) = None \<and>
      (\<forall>j. 0 \<le> j \<and> j < cport_id p \<longrightarrow> idr j \<noteq> None) \<and>
      idr' = idr(cport_id p \<mapsto> p)) \<and>
   (kzalloc_ok e \<and> (\<exists>j. 0 \<le> j \<and> j < 32 \<and> idr j = None) \<longrightarrow>
      (\<exists>q idr''. rpmsg_tty_alloc_cport e idr = (Inr q, idr''))) \<and>
   (kzalloc_ok e \<and> (\<forall>j. 0 \<le> j \<and> j < 32 \<longrightarrow> idr j \<noteq> None) \<longrightarrow>
      rpmsg_tty_alloc_cport e idr = (Inl (- ENOSPC), idr)) \<and>
   rpmsg_tty_release_cport c idr (cport_id c) = None \<and>
   (kzalloc_ok e \<and> 0 \<le> cport_id c \<and> cport_id c < 32 \<and>
    (\<forall>j. 0 \<le> j \<and> j < cport_id c \<longrightarrow> idr j \<noteq> None) \<longrightarrow>
      (\<exists>q idr''. rpmsg_tty_alloc_cport e (rpmsg_tty_release_cport c idr) = (Inr q, idr'') \<and>
                 cport_id q = cport_id c))"
proof -
  have alloc: "rpmsg_tty_alloc_cport e idr = (Inr p, idr') \<longrightarrow>
      0 \<le> cport_id p \<and> cport_id p < 32 \<and> idr (cport_id p) = None \<and>
      (\<forall>j. 0 \<le> j \<and> j < cport_id p \<longrightarrow> idr j \<noteq> None) \<and>
      idr' = idr(cport_id p \<mapsto> p)"
    using alloc_cport_Inr [of e idr p idr'] by blast
  have total: "kzalloc_ok e \<and> (\<exists>j. 0 \<le> j \<and> j < 32 \<and> idr j = None) \<longrightarrow>
      (\<exists>q idr''. rpmsg_tty_alloc_cport e idr = (Inr q, idr''))"
    using alloc_cport_free [of e _ idr] by blast
  have full: "kzalloc_ok e \<and> (\<forall>j. 0 \<le> j \<and> j < 32 \<longrightarrow> idr j \<noteq> None) \<longrightarrow>
      rpmsg_tty_alloc_cport e idr = (Inl (- ENOSPC), idr)"
    using alloc_cport_full [of idr e] by simp
  let ?idr = "rpmsg_tty_release_cport c idr"
  have rel: "?idr = idr(cport_id c := None)"
    by (simp add: rpmsg_tty_release_cport_def idr_remove_def)
  then have freed: "?idr (cport_id c) = None" by simp
  have reuse: "\<exists>q idr''. rpmsg_tty_alloc_cport e ?idr = (Inr q, idr'') \<and> cport_id q = cport_id c"
    if a: "kzalloc_ok e \<and> 0 \<le> cport_id c \<and> cport_id c < 32 \<and>
           (\<forall>j. 0 \<le> j \<and> j < cport_id c \<longrightarrow> idr j \<noteq> None)"
  proof -
    from a freed obtain q idr'' where q: "rpmsg_tty_alloc_cport e ?idr = (Inr q, idr'')"
      using alloc_cport_free [of e "cport_id c" ?idr] by blast
    from alloc_cport_Inr [OF q] have low: "0 \<le> cport_id q" "?idr (cport_id q) = None"
      "\<forall>j. 0 \<le> j \<and> j < cport_id q \<longrightarrow> ?idr j \<noteq> None" by blast+
    have "\<not> cport_id c < cport_id q"
      using low(3) a freed by blast
    moreover have "\<not> cport_id q < cport_id c"
    proof
      assume lt: "cport_id q < cport_id c"
      with a low(1) have "idr (cport_id q) \<noteq> None" by blast
      with lt rel have "?idr (cport_id q) \<noteq> None" by simp
      with low(2) show False by contradiction
    qed
    ultimately have "cport_id q = cport_id c" by simp
    with q show ?thesis by blast
  qed
  from alloc total full freed reuse show ?thesis by blast
qed

theorem registry_lowest_free_id_witness:
  "rpmsg_tty_alloc_cport env0 Map.empty =
     (Inr \<lparr>cport_id = 0, cts = 0, rpdev = None\<rparr>,
      [0 \<mapsto> \<lparr>cport_id = 0, cts = 0, rpdev = None\<rparr>]) \<and>
   rpmsg_tty_alloc_cport env0 (\<lambda>i. Some \<lparr>cport_id = i, cts = 0, rpdev = None\<rparr>) =
     (Inl (- ENOSPC), (\<lambda>i. Some \<lparr>cport_id = i, cts = 0, rpdev = None\<rparr>)) \<and>
   (\<exists>q idr''.
      rpmsg_tty_alloc_cport env0
        (rpmsg_tty_release_cport \<lparr>cport_id = 1, cts = 0, rpdev = None\<rparr>
           (\<lambda>i. Some \<lparr>cport_id = i, cts = 0, rpdev = None\<rparr>)) = (Inr q, idr'') \<and>
      cport_id q = 1)"
proof -
  let ?full = "\<lambda>i. Some \<lparr>cport_id = i, cts = 0, rpdev = None\<rparr>"
  let ?p = "\<lparr>cport_id = 0, cts = 0, rpdev = None\<rparr>"
  let ?c = "\<lparr>cport_id = 1, cts = 0, rpdev = None\<rparr>"
  have k: "kzalloc_ok env0" by (simp add: env0_def)
  have free: "\<exists>j. 0 \<le> j \<and> j < 32 \<and> (Map.empty :: tty_idr) j = None" by auto
  from k free registry_lowest_free_id [of env0 Map.empty]
  obtain q idr'' where q: "rpmsg_tty_alloc_cport env0 Map.empty = (Inr q, idr'')" by blast
  with registry_lowest_free_id [of env0 Map.empty q idr'']
  have "cport_id q = 0" "idr'' = [cport_id q \<mapsto> q]"
    by (auto simp: order.order_iff_strict)
  moreover from q have "cts q = 0" "rpdev q = None"
    by (simp_all add: alloc_cport_Inr)
  ultimately have first: "rpmsg_tty_alloc_cport env0 Map.empty = (Inr ?p, [0 \<mapsto> ?p])"
    using q by (cases q) simp
  have full: "rpmsg_tty_alloc_cport env0 ?full = (Inl (- ENOSPC), ?full)"
    using k registry_lowest_free_id [of env0 ?full] by simp
  have "\<exists>q idr''. rpmsg_tty_alloc_cport env0 (rpmsg_tty_release_cport ?c ?full) = (Inr q, idr'') \<and>
        cport_id q = 1"
    using k registry_lowest_free_id [of env0 ?full _ _ ?c] by simp
  with first full show ?thesis by blast
qed

subsection \<open>A probe whose registration fails\<close>

text \<open>
  Claim C8. When \<open>rpmsg_tty_probe\<close> has created a port (stored in the table under its
  id) and \<open>tty_port_register_device\<close> then fails, the probe destroys the tty port,
  releases the port and returns the error of the registration. The table afterwards is
  the table before the probe, so the id is free again and no port of the failed probe
  is left in it, and the device has no driver data.
\<close>

theorem probe_rolls_back:
  "rpmsg_tty_alloc_cport e idr = (Inr cport, idr1) \<and>
   tty_port_register_device e (cport_id cport) = Inl err \<longrightarrow>
     idr1 (cport_id cport) = Some cport \<and>
     rpmsg_tty_probe e idr r =
       (err, idr, None, [Tty_port_init, Dev_err_register_port, Tty_port_destroy]) \<and>
     idr (cport_id cport) = None"
proof
  assume a: "rpmsg_tty_alloc_cport e idr = (Inr cport, idr1) \<and>
   tty_port_register_device e (cport_id cport) = Inl err"
  from alloc_cport_Inr a have free: "idr (cport_id cport) = None"
    and idr1: "idr1 = idr(cport_id cport \<mapsto> cport)" by blast+
  then have "rpmsg_tty_release_cport cport idr1 = idr"
    by (auto simp: rpmsg_tty_release_cport_def idr_remove_def)
  with a free idr1 show "idr1 (cport_id cport) = Some cport \<and>
     rpmsg_tty_probe e idr r =
       (err, idr, None, [Tty_port_init, Dev_err_register_port, Tty_port_destroy]) \<and>
     idr (cport_id cport) = None"
    by (simp add: rpmsg_tty_probe_def)
qed

theorem probe_rolls_back_witness:
  "rpmsg_tty_alloc_cport (env0\<lparr>tty_port_register_device := (\<lambda>i. Inl (- 12))\<rparr>) Map.empty =
     (Inr \<lparr>cport_id = 0, cts = 0, rpdev = None\<rparr>,
      [0 \<mapsto> \<lparr>cport_id = 0, cts = 0, rpdev = None\<rparr>]) \<and>
   rpmsg_tty_probe (env0\<lparr>tty_port_register_device := (\<lambda>i. Inl (- 12))\<rparr>) Map.empty 0 =
     (- 12, Map.empty, None, [Tty_port_init, Dev_err_register_port, Tty_port_destroy])"
proof -
  let ?e = "env0\<lparr>tty_port_register_device := (\<lambda>i. Inl (- 12))\<rparr>"
  let ?p = "\<lparr>cport_id = 0, cts = 0, rpdev = None\<rparr>"
  have a: "rpmsg_tty_alloc_cport ?e Map.empty = (Inr ?p, [0 \<mapsto> ?p])"
    by (simp add: rpmsg_tty_alloc_cport_def idr_alloc_def env0_def MAX_TTY_RPMSG_def
                  upto_rec1 [of 0 31] Let_def)
  have r: "tty_port_register_device ?e (cport_id ?p) = Inl (- 12)" by simp
  from a r probe_rolls_back [of ?e Map.empty ?p "[0 \<mapsto> ?p]" "- 12" 0]
  show ?thesis by simp
qed

subsection \<open>Writing while \<open>cts\<close> is clear\<close>

lemma step_keeps_cts_clear:
  assumes "cts cport = 0" and "\<not> raises_cts x"
  shows "cts (fst (snd (step e cport x))) = 0"
proof (cases x)
  case (Rx msg)
  show ?thesis
  proof (cases "length msg \<le> 1 \<or> NUM_RPMSG_TTY_TYPE \<le> msg ! 0")
    case True
    then show ?thesis using assms Rx by (simp add: cb_reject)
  next
    case False
    then have l: "2 \<le> length msg" and "msg ! 0 < NUM_RPMSG_TTY_TYPE" by auto
    then consider "msg ! 0 = RPMSG_DATA" | "msg ! 0 = RPMSG_CTRL" using tag_cases by blast
    then show ?thesis
    proof cases
      case 1
      then show ?thesis using assms Rx l
        by (simp add: cb_data rpmsg_tty_data_handler_def Let_def)
    next
      case 2
      show ?thesis
      proof (cases "terminal_ready_frame msg")
        case True
        then show ?thesis using assms Rx by (simp add: cb_terminal_ready)
      next
        case False
        with 2 l have "length (drop 1 msg) \<le> 1 \<or>
                      (2 \<le> length (drop 1 msg) \<and> drop 1 msg ! 0 \<noteq> DATA_TERM_READY)"
          by (auto simp: terminal_ready_frame_def)
        then show ?thesis using assms Rx 2 l
          by (auto simp: cb_ctrl ctrl_handler_short ctrl_handler_unknown)
      qed
    qed
  qed
next
  case (Dtr_rts raise)
  then show ?thesis using assms
    by (simp add: rpmsg_tty_dtr_rts_def Let_def split: prod.splits)
qed (use assms in \<open>simp_all split: prod.splits\<close>)

lemma run_keeps_cts_clear:
  "cts cport = 0 \<Longrightarrow> \<forall>(e, x) \<in> set ops. \<not> raises_cts x \<Longrightarrow> cts (run cport ops) = 0"
proof (induction ops arbitrary: cport)
  case Nil
  then show ?case by simp
next
  case (Cons a ops)
  obtain e x where a: "a = (e, x)" by (cases a)
  with Cons.prems have nr: "\<not> raises_cts x" and rest: "\<forall>(e, x) \<in> set ops. \<not> raises_cts x"
    by simp_all
  obtain r c evs where s: "step e cport x = (r, c, evs)" by (cases "step e cport x")
  with step_keeps_cts_clear [OF Cons.prems(1) nr, of e] have c: "cts c = 0" by simp
  show ?case
    using a s c Cons.IH [OF c rest] by (cases r) simp_all
qed

lemma probe_port_fresh:
  assumes "fst (snd (snd (rpmsg_tty_probe e idr r))) = Some q"
  shows "cts q = 0 \<and> rpdev q = Some r"
proof (cases "rpmsg_tty_alloc_cport e idr")
  case (Pair res idr1)
  show ?thesis
  proof (cases res)
    case (Inl err)
    with Pair assms show ?thesis by (simp add: rpmsg_tty_probe_def)
  next
    case (Inr cport)
    with Pair alloc_cport_Inr have "cts cport = 0" by blast
    with Pair Inr assms show ?thesis
      by (auto simp: rpmsg_tty_probe_def Let_def split: sum.splits)
  qed
qed

text \<open>
  Claim C1, as amended. A write on a port whose \<open>cts\<close> is 0 returns 0 and hands nothing
  to the transport. A port that \<open>rpmsg_tty_alloc_cport\<close> has created, and the port a
  successful probe leaves as driver data, has \<open>cts\<close> 0. From a port with \<open>cts\<close> 0,
  after any sequence of entry-point calls none of which asks for \<open>cts\<close> to be set
  (no TerminalReady message with a non-zero state, no \<open>dtr_rts\<close> with a non-zero
  \<open>raise\<close>), a write still returns 0 and sends nothing.
\<close>

theorem write_blocked_while_cts_clear:
  "(cts cport = 0 \<longrightarrow> rpmsg_tty_write e cport buf = (Inr 0, [])) \<and>
   (rpmsg_tty_alloc_cport e idr = (Inr p, idr') \<longrightarrow> cts p = 0) \<and>
   (fst (snd (snd (rpmsg_tty_probe e idr r))) = Some q \<longrightarrow> cts q = 0) \<and>
   (cts cport = 0 \<and> (\<forall>(e', x) \<in> set ops. \<not> raises_cts x) \<longrightarrow>
      rpmsg_tty_write e (run cport ops) buf = (Inr 0, []))"
proof -
  have gate: "cts c = 0 \<Longrightarrow> rpmsg_tty_write e c buf = (Inr 0, [])" for c
    by (simp add: rpmsg_tty_write_def)
  have "cts cport = 0 \<and> (\<forall>(e', x) \<in> set ops. \<not> raises_cts x) \<longrightarrow>
          rpmsg_tty_write e (run cport ops) buf = (Inr 0, [])"
    using gate [of "run cport ops"] run_keeps_cts_clear [of cport ops] by blast
  moreover have "rpmsg_tty_alloc_cport e idr = (Inr p, idr') \<longrightarrow> cts p = 0"
    using alloc_cport_Inr [of e idr p idr'] by blast
  moreover have "fst (snd (snd (rpmsg_tty_probe e idr r))) = Some q \<longrightarrow> cts q = 0"
    using probe_port_fresh [of e idr r q] by blast
  ultimately show ?thesis using gate [of cport] by blast
qed

theorem write_blocked_while_cts_clear_witness:
  "fst (snd (snd (rpmsg_tty_probe env0 Map.empty 0))) =
     Some \<lparr>cport_id = 0, cts = 0, rpdev = Some 0\<rparr> \<and>
   rpmsg_tty_write env0
     (run \<lparr>cport_id = 0, cts = 0, rpdev = Some 0\<rparr>
        [(env0, Write [65]), (env0, Rx [1, 0, 0]), (env0, Rx [0, 66]), (env0, Dtr_rts 0),
         (env0, Write_room)])
     [67] = (Inr 0, [])"
proof -
  let ?p = "\<lparr>cport_id = 0, cts = 0, rpdev = Some 0\<rparr>"
  let ?ops = "[(env0, Write [65]), (env0, Rx [1, 0, 0]), (env0, Rx [0, 66]), (env0, Dtr_rts 0),
         (env0, Write_room)]"
  have pr: "fst (snd (snd (rpmsg_tty_probe env0 Map.empty 0))) = Some ?p"
    by (simp add: rpmsg_tty_probe_def rpmsg_tty_alloc_cport_def idr_alloc_def env0_def
                  MAX_TTY_RPMSG_def upto_rec1 [of 0 31] Let_def)
  have h: "cts ?p = 0 \<and> (\<forall>(e', x) \<in> set ?ops. \<not> raises_cts x)"
    by (simp add: terminal_ready_frame_def)
  from pr h write_blocked_while_cts_clear [where cport = ?p and e = env0 and buf = "[67]" and ops = ?ops]
  show ?thesis by blast
qed

text \<open>
  The claim as first stated lets only a received TerminalReady message end the blocked
  phase. The driver also sets \<open>cts\<close> in \<open>rpmsg_tty_dtr_rts\<close>: on the port of a fresh
  probe, after \<open>dtr_rts\<close> with \<open>raise\<close> 1 and no message received at all, a write of
  one byte returns 1 and the frame goes to the transport.
\<close>

theorem write_after_dtr_rts_counterexample:
  "fst (snd (snd (rpmsg_tty_probe env0 Map.empty 0))) =
     Some \<lparr>cport_id = 0, cts = 0, rpdev = Some 0\<rparr> \<and>
   rpmsg_tty_write env0
     (run \<lparr>cport_id = 0, cts = 0, rpdev = Some 0\<rparr> [(env0, Dtr_rts 1)]) [65] =
     (Inr 1, [Dev_dbg_send_msg 1, Rpmsg_trysend [0, 65]])"
  by (simp add: rpmsg_tty_probe_def rpmsg_tty_alloc_cport_def idr_alloc_def env0_def
                MAX_TTY_RPMSG_def upto_rec1 [of 0 31] Let_def
                rpmsg_tty_dtr_rts_def rpmsg_tty_unthrottle_def rpmsg_tty_write_control_def
                rpmsg_tty_write_def sizeof_rpmsg_tty_payload_def RPMSG_DATA_def)

subsection \<open>Frame lengths the receive side takes\<close>

text \<open>
  Claim C4, as amended. A message of total length 1 is rejected with \<open>-EINVAL\<close>, the
  port unchanged and nothing delivered, whichever tag it carries. A data message is
  accepted from total length 2 on, and its bytes after the tag are handed to the tty
  buffer. A control message of total length 2 gets 0 from the callback, but the control
  handler drops it with an error line and leaves the port as it was; from total length
  3 on a \<open>DATA_TERM_READY\<close> message sets \<open>cts\<close> from its state byte.
\<close>

theorem frame_length_bounds:
  "(length msg = 1 \<longrightarrow>
      rpmsg_tty_cb e cport msg = (- EINVAL, cport, [Dev_err_invalid_message])) \<and>
   (2 \<le> length msg \<and> msg ! 0 = RPMSG_DATA \<longrightarrow>
      fst (rpmsg_tty_cb e cport msg) = 0 \<and>
      fst (snd (rpmsg_tty_cb e cport msg)) = cport \<and>
      delivered (snd (snd (rpmsg_tty_cb e cport msg))) = [drop 1 msg]) \<and>
   (length msg = 2 \<and> msg ! 0 = RPMSG_CTRL \<longrightarrow>
      rpmsg_tty_cb e cport msg =
        (0, cport, [Dev_dbg_ctrl_received, Print_hex_dump (drop 1 msg), Dev_err_ctrl_invalid])) \<and>
   (3 \<le> length msg \<and> msg ! 0 = RPMSG_CTRL \<and> msg ! 1 = DATA_TERM_READY \<longrightarrow>
      fst (rpmsg_tty_cb e cport msg) = 0 \<and>
      fst (snd (rpmsg_tty_cb e cport msg)) = cport\<lparr>cts := if msg ! 2 = 0 then 0 else 1\<rparr>)"
proof -
  have one: "length msg = 1 \<longrightarrow>
      rpmsg_tty_cb e cport msg = (- EINVAL, cport, [Dev_err_invalid_message])"
    by (simp add: cb_reject)
  have data: "2 \<le> length msg \<and> msg ! 0 = RPMSG_DATA \<longrightarrow>
      fst (rpmsg_tty_cb e cport msg) = 0 \<and>
      fst (snd (rpmsg_tty_cb e cport msg)) = cport \<and>
      delivered (snd (snd (rpmsg_tty_cb e cport msg))) = [drop 1 msg]"
  proof
    assume a: "2 \<le> length msg \<and> msg ! 0 = RPMSG_DATA"
    then have "drop 1 msg \<noteq> []" by simp
    with a show "fst (rpmsg_tty_cb e cport msg) = 0 \<and>
      fst (snd (rpmsg_tty_cb e cport msg)) = cport \<and>
      delivered (snd (snd (rpmsg_tty_cb e cport msg))) = [drop 1 msg]"
      by (simp add: cb_data data_handler_nonempty)
  qed
  have two: "length msg = 2 \<and> msg ! 0 = RPMSG_CTRL \<longrightarrow>
      rpmsg_tty_cb e cport msg =
        (0, cport, [Dev_dbg_ctrl_received, Print_hex_dump (drop 1 msg), Dev_err_ctrl_invalid])"
  proof
    assume a: "length msg = 2 \<and> msg ! 0 = RPMSG_CTRL"
    then have "length (drop 1 msg) \<le> 1" by simp
    from ctrl_handler_short [OF this] a show "rpmsg_tty_cb e cport msg =
        (0, cport, [Dev_dbg_ctrl_received, Print_hex_dump (drop 1 msg), Dev_err_ctrl_invalid])"
      by (simp add: cb_ctrl)
  qed
  have three: "3 \<le> length msg \<and> msg ! 0 = RPMSG_CTRL \<and> msg ! 1 = DATA_TERM_READY \<longrightarrow>
      fst (rpmsg_tty_cb e cport msg) = 0 \<and>
      fst (snd (rpmsg_tty_cb e cport msg)) = cport\<lparr>cts := if msg ! 2 = 0 then 0 else 1\<rparr>"
    using cb_terminal_ready [of msg e cport] by (simp add: terminal_ready_frame_def)
  from one data two three show ?thesis by blast
qed

theorem frame_length_bounds_witness:
  "rpmsg_tty_cb env0 \<lparr>cport_id = 0, cts = 1, rpdev = Some 0\<rparr> [1] =
     (- EINVAL, \<lparr>cport_id = 0, cts = 1, rpdev = Some 0\<rparr>, [Dev_err_invalid_message]) \<and>
   delivered (snd (snd (rpmsg_tty_cb env0 \<lparr>cport_id = 0, cts = 1, rpdev = Some 0\<rparr> [0, 65])))
     = [[65]] \<and>
   rpmsg_tty_cb env0 \<lparr>cport_id = 0, cts = 1, rpdev = Some 0\<rparr> [1, 0] =
     (0, \<lparr>cport_id = 0, cts = 1, rpdev = Some 0\<rparr>,
      [Dev_dbg_ctrl_received, Print_hex_dump [0], Dev_err_ctrl_invalid]) \<and>
   fst (snd (rpmsg_tty_cb env0 \<lparr>cport_id = 0, cts = 1, rpdev = Some 0\<rparr> [1, 0, 0])) =
     \<lparr>cport_id = 0, cts = 0, rpdev = Some 0\<rparr>"
proof -
  let ?p = "\<lparr>cport_id = 0, cts = 1, rpdev = Some 0\<rparr>"
  have h1: "length [1 :: u8] = 1" by simp
  have h2: "2 \<le> length [0, 65 :: u8] \<and> [0, 65 :: u8] ! 0 = RPMSG_DATA"
    by (simp add: RPMSG_DATA_def)
  have h3: "length [1, 0 :: u8] = 2 \<and> [1, 0 :: u8] ! 0 = RPMSG_CTRL"
    by (simp add: RPMSG_CTRL_def)
  have h4: "3 \<le> length [1, 0, 0 :: u8] \<and> [1, 0, 0 :: u8] ! 0 = RPMSG_CTRL \<and>
            [1, 0, 0 :: u8] ! 1 = DATA_TERM_READY"
    by (simp add: RPMSG_CTRL_def DATA_TERM_READY_def)
  from h1 frame_length_bounds [of "[1]" env0 ?p]
  have a: "rpmsg_tty_cb env0 ?p [1] = (- EINVAL, ?p, [Dev_err_invalid_message])" by blast
  from h2 frame_length_bounds [of "[0, 65]" env0 ?p]
  have b: "delivered (snd (snd (rpmsg_tty_cb env0 ?p [0, 65]))) = [drop 1 [0, 65]]" by blast
  from h3 frame_length_bounds [of "[1, 0]" env0 ?p]
  have c: "rpmsg_tty_cb env0 ?p [1, 0] =
     (0, ?p, [Dev_dbg_ctrl_received, Print_hex_dump (drop 1 [1, 0]), Dev_err_ctrl_invalid])"
    by blast
  from h4 frame_length_bounds [of "[1, 0, 0]" env0 ?p]
  have d: "fst (snd (rpmsg_tty_cb env0 ?p [1, 0, 0])) =
             ?p\<lparr>cts := if [1, 0, 0 :: u8] ! 2 = 0 then 0 else 1\<rparr>" by blast
  from a b c d show ?thesis by simp
qed

text \<open>
  The claim as first stated has the one-byte message with the data tag accepted with
  an empty payload. The callback rejects it: its length is not above the size of the
  header.
\<close>

theorem data_tag_alone_counterexample:
  "rpmsg_tty_cb env0 \<lparr>cport_id = 0, cts = 1, rpdev = Some 0\<rparr> [0] =
     (- 22, \<lparr>cport_id = 0, cts = 1, rpdev = Some 0\<rparr>, [Dev_err_invalid_message])"
  by (simp add: rpmsg_tty_cb_def sizeof_rpmsg_tty_payload_def EINVAL_def)

subsection \<open>Sending a frame and receiving it\<close>

lemma write_sends:
  assumes "cts cport \<noteq> 0" "rpdev cport \<noteq> None" "kzalloc_ok e"
    and "0 < rpmsg_get_buf_payload_size e"
  shows "rpmsg_tty_write e cport buf =
     (let n = nat (min (int (length buf) + 1) (rpmsg_get_buf_payload_size e) - 1);
          f = RPMSG_DATA # take n buf
      in if rpmsg_trysend e f \<noteq> 0
         then (Inr 0, [Dev_dbg_send_msg (int (length buf)), Rpmsg_trysend f,
                       Dev_dbg_send_failed (rpmsg_trysend e f)])
         else (Inr (int n), [Dev_dbg_send_msg (int (length buf)), Rpmsg_trysend f]))"
  using assms
  by (auto simp: rpmsg_tty_write_def sizeof_rpmsg_tty_payload_def Let_def min_def)

text \<open>
  Claim C5, as amended. A non-empty data payload that fits the transport's payload
  size together with the tag is sent by \<open>rpmsg_tty_write\<close> as the tag followed by the
  payload, the write returns the payload's length when the transport accepts the frame,
  and \<open>rpmsg_tty_cb\<close> on that frame hands exactly the payload to the tty buffer. The
  TerminalReady frame that \<open>rpmsg_tty_write_control\<close> sends for one state byte is
  received as that state: \<open>cts\<close> becomes 0 for a zero byte and 1 otherwise. A data
  payload that does not fit (payload size at least 1) is cut to the payload size minus
  one bytes, and the write returns that count when the transport accepts the frame.
\<close>

theorem frame_round_trip:
  "(cts cport \<noteq> 0 \<and> rpdev cport \<noteq> None \<and> kzalloc_ok e \<and> buf \<noteq> [] \<and>
    int (length buf) + 1 \<le> rpmsg_get_buf_payload_size e \<longrightarrow>
      sent (snd (rpmsg_tty_write e cport buf)) = [RPMSG_DATA # buf] \<and>
      (rpmsg_trysend e (RPMSG_DATA # buf) = 0 \<longrightarrow>
         fst (rpmsg_tty_write e cport buf) = Inr (int (length buf))) \<and>
      fst (rpmsg_tty_cb e' rport (RPMSG_DATA # buf)) = 0 \<and>
      delivered (snd (snd (rpmsg_tty_cb e' rport (RPMSG_DATA # buf)))) = [buf]) \<and>
   (rpdev cport \<noteq> None \<and> kzalloc_ok e \<longrightarrow>
      sent (snd (rpmsg_tty_write_control e cport ctrl [v])) =
        [[RPMSG_CTRL, DATA_TERM_READY, v]] \<and>
      fst (rpmsg_tty_cb e' rport [RPMSG_CTRL, DATA_TERM_READY, v]) = 0 \<and>
      fst (snd (rpmsg_tty_cb e' rport [RPMSG_CTRL, DATA_TERM_READY, v])) =
        rport\<lparr>cts := if v = 0 then 0 else 1\<rparr>) \<and>
   (cts cport \<noteq> 0 \<and> rpdev cport \<noteq> None \<and> kzalloc_ok e \<and>
    0 < rpmsg_get_buf_payload_size e \<and> rpmsg_get_buf_payload_size e < int (length buf) + 1 \<longrightarrow>
      sent (snd (rpmsg_tty_write e cport buf)) =
        [RPMSG_DATA # take (nat (rpmsg_get_buf_payload_size e - 1)) buf] \<and>
      int (length (take (nat (rpmsg_get_buf_payload_size e - 1)) buf)) =
        rpmsg_get_buf_payload_size e - 1 \<and>
      (rpmsg_trysend e (RPMSG_DATA # take (nat (rpmsg_get_buf_payload_size e - 1)) buf) = 0 \<longrightarrow>
         fst (rpmsg_tty_write e cport buf) = Inr (rpmsg_get_buf_payload_size e - 1)))"
proof -
  have fits: "sent (snd (rpmsg_tty_write e cport buf)) = [RPMSG_DATA # buf] \<and>
      (rpmsg_trysend e (RPMSG_DATA # buf) = 0 \<longrightarrow>
         fst (rpmsg_tty_write e cport buf) = Inr (int (length buf)))"
    if a: "cts cport \<noteq> 0 \<and> rpdev cport \<noteq> None \<and> kzalloc_ok e \<and> buf \<noteq> [] \<and>
           int (length buf) + 1 \<le> rpmsg_get_buf_payload_size e"
  proof -
    from a have "0 < rpmsg_get_buf_payload_size e"
      and n: "nat (min (int (length buf) + 1) (rpmsg_get_buf_payload_size e) - 1) = length buf"
      by simp_all
    with a show ?thesis by (simp add: write_sends Let_def)
  qed
  have recv: "fst (rpmsg_tty_cb e' rport (RPMSG_DATA # buf)) = 0 \<and>
      delivered (snd (snd (rpmsg_tty_cb e' rport (RPMSG_DATA # buf)))) = [buf]"
    if "buf \<noteq> []"
    using that by (cases buf) (simp_all add: cb_data data_handler_nonempty)
  have ctl: "sent (snd (rpmsg_tty_write_control e cport ctrl [v])) =
        [[RPMSG_CTRL, DATA_TERM_READY, v]]"
    if "rpdev cport \<noteq> None \<and> kzalloc_ok e"
    using that by (auto simp: rpmsg_tty_write_control_def Let_def)
  have "terminal_ready_frame [RPMSG_CTRL, DATA_TERM_READY, v]"
    by (simp add: terminal_ready_frame_def)
  from cb_terminal_ready [OF this, of e' rport]
  have ctl_recv: "fst (rpmsg_tty_cb e' rport [RPMSG_CTRL, DATA_TERM_READY, v]) = 0 \<and>
      fst (snd (rpmsg_tty_cb e' rport [RPMSG_CTRL, DATA_TERM_READY, v])) =
        rport\<lparr>cts := if v = 0 then 0 else 1\<rparr>"
    by simp
  have trunc: "sent (snd (rpmsg_tty_write e cport buf)) =
        [RPMSG_DATA # take (nat (rpmsg_get_buf_payload_size e - 1)) buf] \<and>
      int (length (take (nat (rpmsg_get_buf_payload_size e - 1)) buf)) =
        rpmsg_get_buf_payload_size e - 1 \<and>
      (rpmsg_trysend e (RPMSG_DATA # take (nat (rpmsg_get_buf_payload_size e - 1)) buf) = 0 \<longrightarrow>
         fst (rpmsg_tty_write e cport buf) = Inr (rpmsg_get_buf_payload_size e - 1))"
    if a: "cts cport \<noteq> 0 \<and> rpdev cport \<noteq> None \<and> kzalloc_ok e \<and>
           0 < rpmsg_get_buf_payload_size e \<and> rpmsg_get_buf_payload_size e < int (length buf) + 1"
  proof -
    from a have n: "min (int (length buf) + 1) (rpmsg_get_buf_payload_size e) =
                    rpmsg_get_buf_payload_size e"
      by simp
    from a have l: "int (length (take (nat (rpmsg_get_buf_payload_size e - 1)) buf)) =
        rpmsg_get_buf_payload_size e - 1"
      by (auto simp: min_def)
    from a l show ?thesis by (simp add: write_sends Let_def n)
  qed
  from fits recv ctl ctl_recv trunc show ?thesis by blast
qed

theorem frame_round_trip_witness:
  "sent (snd (rpmsg_tty_write env0 \<lparr>cport_id = 0, cts = 1, rpdev = Some 0\<rparr> [65, 66])) =
     [[0, 65, 66]] \<and>
   fst (rpmsg_tty_write env0 \<lparr>cport_id = 0, cts = 1, rpdev = Some 0\<rparr> [65, 66]) = Inr 2 \<and>
   delivered (snd (snd (rpmsg_tty_cb env0 \<lparr>cport_id = 1, cts = 0, rpdev = Some 1\<rparr>
     [0, 65, 66]))) = [[65, 66]] \<and>
   sent (snd (rpmsg_tty_write_control env0 \<lparr>cport_id = 0, cts = 1, rpdev = Some 0\<rparr>
     DATA_TERM_READY [1])) = [[1, 0, 1]] \<and>
   fst (snd (rpmsg_tty_cb env0 \<lparr>cport_id = 1, cts = 0, rpdev = Some 1\<rparr> [1, 0, 1])) =
     \<lparr>cport_id = 1, cts = 1, rpdev = Some 1\<rparr> \<and>
   sent (snd (rpmsg_tty_write (env0\<lparr>rpmsg_get_buf_payload_size := 3\<rparr>)
     \<lparr>cport_id = 0, cts = 1, rpdev = Some 0\<rparr> [65, 66, 67, 68])) = [[0, 65, 66]] \<and>
   fst (rpmsg_tty_write (env0\<lparr>rpmsg_get_buf_payload_size := 3\<rparr>)
     \<lparr>cport_id = 0, cts = 1, rpdev = Some 0\<rparr> [65, 66, 67, 68]) = Inr 2"
proof -
  let ?p = "\<lparr>cport_id = 0, cts = 1, rpdev = Some 0\<rparr>"
  let ?q = "\<lparr>cport_id = 1, cts = 0, rpdev = Some 1\<rparr>"
  let ?e3 = "env0\<lparr>rpmsg_get_buf_payload_size := 3\<rparr>"
  have h1: "cts ?p \<noteq> 0 \<and> rpdev ?p \<noteq> None \<and> kzalloc_ok env0 \<and> [65, 66 :: u8] \<noteq> [] \<and>
            int (length [65, 66 :: u8]) + 1 \<le> rpmsg_get_buf_payload_size env0"
    by (simp add: env0_def)
  have h2: "rpdev ?p \<noteq> None \<and> kzalloc_ok env0"
    by (simp add: env0_def)
  have h3: "cts ?p \<noteq> 0 \<and> rpdev ?p \<noteq> None \<and> kzalloc_ok ?e3 \<and>
            0 < rpmsg_get_buf_payload_size ?e3 \<and>
            rpmsg_get_buf_payload_size ?e3 < int (length [65, 66, 67, 68 :: u8]) + 1"
    by (simp add: env0_def)
  have t0: "rpmsg_trysend env0 f = 0" "rpmsg_trysend ?e3 f = 0" for f
    by (simp_all add: env0_def)
  from h1 h2 frame_round_trip [of ?p env0 "[65, 66]" env0 ?q DATA_TERM_READY 1]
  have a: "sent (snd (rpmsg_tty_write env0 ?p [65, 66])) = [RPMSG_DATA # [65, 66]] \<and>
      fst (rpmsg_tty_write env0 ?p [65, 66]) = Inr (int (length [65, 66 :: u8])) \<and>
      delivered (snd (snd (rpmsg_tty_cb env0 ?q (RPMSG_DATA # [65, 66])))) = [[65, 66]] \<and>
      sent (snd (rpmsg_tty_write_control env0 ?p DATA_TERM_READY [1])) =
        [[RPMSG_CTRL, DATA_TERM_READY, 1]] \<and>
      fst (snd (rpmsg_tty_cb env0 ?q [RPMSG_CTRL, DATA_TERM_READY, 1])) =
        ?q\<lparr>cts := if (1 :: u8) = 0 then 0 else 1\<rparr>"
    using t0 by blast
  from h3 frame_round_trip [of ?p ?e3 "[65, 66, 67, 68]" env0 ?q DATA_TERM_READY 1]
  have b: "sent (snd (rpmsg_tty_write ?e3 ?p [65, 66, 67, 68])) =
        [RPMSG_DATA # take (nat (rpmsg_get_buf_payload_size ?e3 - 1)) [65, 66, 67, 68]] \<and>
      fst (rpmsg_tty_write ?e3 ?p [65, 66, 67, 68]) = Inr (rpmsg_get_buf_payload_size ?e3 - 1)"
    using t0 by blast
  from a b show ?thesis
    by (simp add: RPMSG_DATA_def RPMSG_CTRL_def DATA_TERM_READY_def)
qed

text \<open>
  The claim as first stated covers every payload. An empty data payload is sent as the
  tag alone, a frame of one byte, and the receive callback rejects that frame.
\<close>

theorem empty_payload_counterexample:
  "rpmsg_tty_write env0 \<lparr>cport_id = 0, cts = 1, rpdev = Some 0\<rparr> [] =
     (Inr 0, [Dev_dbg_send_msg 0, Rpmsg_trysend [0]]) \<and>
   rpmsg_tty_cb env0 \<lparr>cport_id = 0, cts = 1, rpdev = Some 0\<rparr> [0] =
     (- 22, \<lparr>cport_id = 0, cts = 1, rpdev = Some 0\<rparr>, [Dev_err_invalid_message])"
  by (simp add: rpmsg_tty_write_def env0_def sizeof_rpmsg_tty_payload_def RPMSG_DATA_def
                rpmsg_tty_cb_def EINVAL_def)

end
